theory Spec2Isabelle
  imports Main "HOL-Library.Word"
begin

section \<open>JavaScript values\<close>

text \<open>
  The values that flow through \<^verbatim>\<open>createAsyncThunk.ts\<close>: thunk arguments, results, thrown
  values and serialized errors. Objects are plain data: an association list of the
  properties that a read \<^verbatim>\<open>value[property]\<close> can see (own or inherited), in insertion
  order. An instance of the source's class \<^verbatim>\<open>RejectWithValue\<close> is a constructor of its
  own, because the source recognises it by \<^verbatim>\<open>instanceof\<close> and not by its shape.
  A number is an integer from \<open>- 2\<^sup>5\<^sup>3\<close> to \<open>2\<^sup>5\<^sup>3 - 1\<close>: these JavaScript represents
  exactly and prints in full decimal notation. It is carried by a 54-bit word, read as a
  signed integer by \<open>sint\<close>; no arithmetic is done on numbers. The other numbers
  (fractions, larger magnitudes, \<^verbatim>\<open>NaN\<close>, the infinities), functions, symbols and big
  integers are not part of the model. The properties of a \<open>jsval\<close> object are data
  properties; objects with accessor properties come with \<open>anyval\<close> below.
\<close>

datatype jsval =
    Undefined
  | Null
  | Bool bool
  | Num "54 word"
  | Str string
  | Obj "(string \<times> jsval) list"
  | RejectWithValue jsval

text \<open>\<^verbatim>\<open>typeof value\<close>.\<close>

fun typeof :: "jsval \<Rightarrow> string" where
  "typeof Undefined = ''undefined''"
| "typeof Null = ''object''"
| "typeof (Bool b) = ''boolean''"
| "typeof (Num n) = ''number''"
| "typeof (Str s) = ''string''"
| "typeof (Obj fs) = ''object''"
| "typeof (RejectWithValue v) = ''object''"

text \<open>Truthiness, as \<^verbatim>\<open>!!value\<close>, \<^verbatim>\<open>value || d\<close> and \<^verbatim>\<open>if (value)\<close> test it.\<close>

fun truthy :: "jsval \<Rightarrow> bool" where
  "truthy Undefined = False"
| "truthy Null = False"
| "truthy (Bool b) = b"
| "truthy (Num n) = (n \<noteq> 0)"
| "truthy (Str s) = (s \<noteq> [])"
| "truthy (Obj fs) = True"
| "truthy (RejectWithValue v) = True"

text \<open>\<^verbatim>\<open>value instanceof RejectWithValue\<close>.\<close>

fun instanceof_RejectWithValue :: "jsval \<Rightarrow> bool" where
  "instanceof_RejectWithValue (RejectWithValue v) = True"
| "instanceof_RejectWithValue _ = False"

text \<open>
  The property read \<^verbatim>\<open>value[property]\<close>. A \<^verbatim>\<open>RejectWithValue\<close> instance has the fields
  \<^verbatim>\<open>name = 'RejectWithValue'\<close>, \<^verbatim>\<open>message = 'Rejected'\<close> and \<^verbatim>\<open>payload\<close>. The primitives
  have none of the properties the source reads (\<^verbatim>\<open>name\<close>, \<^verbatim>\<open>message\<close>, \<^verbatim>\<open>stack\<close>,
  \<^verbatim>\<open>code\<close>, \<^verbatim>\<open>payload\<close>). The source reads a property only behind a guard that has
  excluded \<^verbatim>\<open>undefined\<close> and \<^verbatim>\<open>null\<close>, where the read would raise.
\<close>

fun getprop :: "jsval \<Rightarrow> string \<Rightarrow> jsval" where
  "getprop (Obj fs) p = (case map_of fs p of Some v \<Rightarrow> v | None \<Rightarrow> Undefined)"
| "getprop (RejectWithValue v) p =
     (if p = ''name'' then Str ''RejectWithValue''
      else if p = ''message'' then Str ''Rejected''
      else if p = ''payload'' then v
      else Undefined)"
| "getprop _ p = Undefined"

text \<open>The assignment \<^verbatim>\<open>obj[property] = v\<close> on the properties of a plain object.\<close>

fun setprop :: "(string \<times> jsval) list \<Rightarrow> string \<Rightarrow> jsval \<Rightarrow> (string \<times> jsval) list" where
  "setprop [] p v = [(p, v)]"
| "setprop ((q, w) # fs) p v = (if q = p then (p, v) # fs else (q, w) # setprop fs p v)"

text \<open>Decimal digits of a natural number, most significant first.\<close>

fun digits :: "nat \<Rightarrow> string" where
  "digits n = (if n < 10 then [''0123456789'' ! n]
               else digits (n div 10) @ [''0123456789'' ! (n mod 10)])"

declare digits.simps [simp del]

text \<open>
  \<^verbatim>\<open>String(value)\<close>. A number of the model prints as its decimal expansion, with a minus
  sign when negative.
\<close>

fun js_String :: "jsval \<Rightarrow> string" where
  "js_String Undefined = ''undefined''"
| "js_String Null = ''null''"
| "js_String (Bool b) = (if b then ''true'' else ''false'')"
| "js_String (Num n) =
     (if sint n < 0 then CHR ''-'' # digits (nat (- sint n)) else digits (nat (sint n)))"
| "js_String (Str s) = s"
| "js_String (Obj fs) = ''[object Object]''"
| "js_String (RejectWithValue v) = ''[object Object]''"

section \<open>The default error serializer\<close>

definition commonProperties :: "string list" where
  "commonProperties = [''name'', ''message'', ''stack'', ''code'']"

text \<open>
  The \<^verbatim>\<open>for (const property of commonProperties)\<close> loop of \<^verbatim>\<open>miniSerializeError\<close>, with
  \<^verbatim>\<open>simpleError\<close> as the accumulator.
\<close>

fun copyProperties :: "jsval \<Rightarrow> string list \<Rightarrow> (string \<times> jsval) list \<Rightarrow> (string \<times> jsval) list" where
  "copyProperties val [] simpleError = simpleError"
| "copyProperties val (property # rest) simpleError =
     copyProperties val rest
       (if typeof (getprop val property) = ''string''
        then setprop simpleError property (getprop val property)
        else simpleError)"

text \<open>\<^verbatim>\<open>miniSerializeError\<close> on a plain value, where every read returns.\<close>

definition miniSerializeError :: "jsval \<Rightarrow> jsval" where
  "miniSerializeError val =
     (if typeof val = ''object'' \<and> val \<noteq> Null
      then Obj (copyProperties val commonProperties [])
      else Obj [(''message'', Str (js_String val))])"

text \<open>
  \<^verbatim>\<open>miniSerializeError\<close> takes \<^verbatim>\<open>value: any\<close>, and a read \<^verbatim>\<open>value[property]\<close> of an accessor
  property runs the getter, which may throw. \<open>anyval\<close> adds to the plain values the objects
  whose properties are data properties or accessors; a getter here has a fixed outcome
  at every read: it returns a value (\<open>Inr\<close>) or throws one (\<open>Inl\<close>). Getters whose outcome
  changes from read to read, and proxies, are not part of the model.
\<close>

datatype property = Data jsval | Getter "jsval + jsval"







section \<open>Actions\<close>

record meta =
  arg :: jsval
  requestId :: string
  requestStatus :: string
  rejectedWithValue :: "bool option"
  aborted :: "bool option"
  condition :: "bool option"

text \<open>
  What a payload-shaping callback returns: \<^verbatim>\<open>{ payload, meta, error }\<close>, the last two
  optional. The three flags of \<^verbatim>\<open>meta\<close> are present on rejected actions only.
\<close>

record prepared =
  payload :: jsval
  meta :: "meta option"
  error :: "jsval option"

text \<open>
  An action: the shaped fields and the \<^verbatim>\<open>type\<close> tag. This is also what \<^verbatim>\<open>unwrapResult\<close>
  takes (\<^verbatim>\<open>UnwrappableAction\<close>: \<^verbatim>\<open>payload\<close>, optional \<^verbatim>\<open>meta\<close>, optional \<^verbatim>\<open>error\<close>).
\<close>

record action = prepared +
  type :: string

text \<open>
  The options of \<^verbatim>\<open>createAsyncThunk\<close>. The callbacks are given by what they do:
  \<^verbatim>\<open>condition\<close> maps the argument to the value it returns (\<open>Inr\<close>) or throws (\<open>Inl\<close>);
  \<^verbatim>\<open>serializeError\<close> maps a value to its serialized form; \<^verbatim>\<open>idGenerator\<close> is the string
  it returns for this request. \<^verbatim>\<open>getState\<close> and \<^verbatim>\<open>extra\<close> are opaque to the source and
  only handed on to the callbacks, so they are part of what the callbacks do.
\<close>

record options =
  condition :: "(jsval \<Rightarrow> jsval + jsval) option"
  dispatchConditionRejection :: "bool option"
  serializeError :: "(jsval \<Rightarrow> jsval) option"
  idGenerator :: "string option"

text \<open>
  Modelled from the spec: \<^verbatim>\<open>createAction\<close> of \<^verbatim>\<open>./createAction\<close>, the event descriptor
  factory, which is not among the sources. Given a type tag and a payload-shaping
  function it yields a constructor of tagged events: the constructor applies the shaping
  function to its arguments and returns the event with the tag as \<^verbatim>\<open>type\<close> and the
  shaped \<^verbatim>\<open>payload\<close>, \<^verbatim>\<open>meta\<close> and \<^verbatim>\<open>error\<close>. Here it takes the shaped fields.
\<close>

definition createAction :: "string \<Rightarrow> prepared \<Rightarrow> action" where
  "createAction tag p = \<lparr>payload = payload p, meta = meta p, error = error p, type = tag\<rparr>"

text \<open>
  Modelled from the spec: the \<^verbatim>\<open>match\<close> predicate that \<^verbatim>\<open>createAction\<close> attaches to a
  constructor, which recognises the events that carry the constructor's tag.
\<close>

definition match :: "string \<Rightarrow> action \<Rightarrow> bool" where
  "match tag act = (type act = tag)"

text \<open>
  The three action creators of \<^verbatim>\<open>createAsyncThunk\<close>, with the source's shaping functions.
\<close>

definition fulfilled :: "string \<Rightarrow> jsval \<Rightarrow> string \<Rightarrow> jsval \<Rightarrow> action" where
  "fulfilled typePrefix result rid a =
     createAction (typePrefix @ ''/fulfilled'')
       \<lparr>payload = result,
        meta = Some \<lparr>arg = a, requestId = rid, requestStatus = ''fulfilled'',
                     rejectedWithValue = None, aborted = None, meta.condition = None\<rparr>,
        error = None\<rparr>"

definition pending :: "string \<Rightarrow> string \<Rightarrow> jsval \<Rightarrow> action" where
  "pending typePrefix rid a =
     createAction (typePrefix @ ''/pending'')
       \<lparr>payload = Undefined,
        meta = Some \<lparr>arg = a, requestId = rid, requestStatus = ''pending'',
                     rejectedWithValue = None, aborted = None, meta.condition = None\<rparr>,
        error = None\<rparr>"

text \<open>\<^verbatim>\<open>(options && options.serializeError) || miniSerializeError\<close>.\<close>

definition serializer :: "options option \<Rightarrow> jsval \<Rightarrow> jsval" where
  "serializer opts =
     (case opts of
        None \<Rightarrow> miniSerializeError
      | Some ops \<Rightarrow> (case serializeError ops of None \<Rightarrow> miniSerializeError | Some f \<Rightarrow> f))"

definition rejected :: "string \<Rightarrow> options option \<Rightarrow> jsval \<Rightarrow> string \<Rightarrow> jsval \<Rightarrow> action" where
  "rejected typePrefix opts err rid a =
     (let rejectedWithValue' = instanceof_RejectWithValue err;
          aborted' = (truthy err \<and> getprop err ''name'' = Str ''AbortError'');
          condition' = (truthy err \<and> getprop err ''name'' = Str ''ConditionError'')
      in createAction (typePrefix @ ''/rejected'')
           \<lparr>payload = (if instanceof_RejectWithValue err then getprop err ''payload'' else Undefined),
            meta = Some \<lparr>arg = a, requestId = rid, requestStatus = ''rejected'',
                         rejectedWithValue = Some rejectedWithValue',
                         aborted = Some aborted', meta.condition = Some condition'\<rparr>,
            error = Some (serializer opts (if truthy err then err else Str ''Rejected''))\<rparr>)"

section \<open>The result unwrapper\<close>

text \<open>\<^verbatim>\<open>unwrapResult\<close>: \<open>Inl\<close> is the value thrown, \<open>Inr\<close> the value returned.\<close>

definition unwrapResult :: "action \<Rightarrow> jsval + jsval" where
  "unwrapResult act =
     (if (case meta act of None \<Rightarrow> False
          | Some m \<Rightarrow> (case rejectedWithValue m of None \<Rightarrow> False | Some b \<Rightarrow> b))
      then Inl (payload act)
      else (case error act of
              None \<Rightarrow> Inr (payload act)
            | Some e \<Rightarrow> if truthy e then Inl e else Inr (payload act)))"

section \<open>One invocation of the thunk\<close>

text \<open>
  The host: whether \<^verbatim>\<open>typeof AbortController !== 'undefined'\<close>, and the string that
  \<^verbatim>\<open>nanoid()\<close> (of \<^verbatim>\<open>./nanoid\<close>, not among the sources) returns for this request.
\<close>

record host =
  hasAbortController :: bool
  nanoid :: string

text \<open>
  What the payload creator does with an argument: it throws before returning, or it
  returns a value or a promise. \<open>Settles\<close> carries the settlement that
  \<^verbatim>\<open>Promise.resolve(payloadCreator(...))\<close> reaches if it ever settles: fulfilled with a
  value (\<open>Inr\<close>) or rejected with an error (\<open>Inl\<close>). When it settles, if ever, is
  decided by the schedule below.
\<close>

datatype returned = Throws jsval | Settles "jsval + jsval"

record asyncThunk =
  typePrefix :: string
  payloadCreator :: "jsval \<Rightarrow> returned"
  options :: "options option"

text \<open>
  The variables of one invocation that change: \<^verbatim>\<open>started\<close>, \<^verbatim>\<open>abortReason\<close>, the
  \<^verbatim>\<open>aborted\<close> flag of the controller's signal, the events handed to \<^verbatim>\<open>dispatch\<close> so far
  (oldest first), and the value of \<^verbatim>\<open>promise\<close>: \<open>None\<close> while it is pending, the final
  action once it is resolved. \<^verbatim>\<open>dispatch\<close> is taken to record the event and return.
\<close>

record state =
  started :: bool
  abortReason :: "string option"
  signal_aborted :: bool
  dispatched :: "action list"
  finalAction :: "action option"

text \<open>
  The variables as the thunk declares them, before the \<^verbatim>\<open>async\<close> function is called:
  \<^verbatim>\<open>started = false\<close>, \<^verbatim>\<open>abortReason\<close> undefined, a fresh controller, nothing dispatched.
\<close>

definition initial :: state where
  "initial = \<lparr>started = False, abortReason = None, signal_aborted = False,
              dispatched = [], finalAction = None\<rparr>"

text \<open>\<^verbatim>\<open>(options?.idGenerator ?? nanoid)()\<close>.\<close>

definition requestId_of :: "host \<Rightarrow> asyncThunk \<Rightarrow> string" where
  "requestId_of h t =
     (case options t of
        None \<Rightarrow> nanoid h
      | Some ops \<Rightarrow> (case idGenerator ops of None \<Rightarrow> nanoid h | Some rid \<Rightarrow> rid))"

definition conditionError :: jsval where
  "conditionError =
     Obj [(''name'', Str ''ConditionError''),
          (''message'', Str ''Aborted due to condition callback returning false.'')]"

text \<open>
  The first statement of the \<^verbatim>\<open>try\<close> block: \<open>Some e\<close> when control leaves for the
  \<^verbatim>\<open>catch\<close> with \<open>e\<close> (the callback threw \<open>e\<close>, or it returned exactly \<^verbatim>\<open>false\<close> and
  the literal is thrown), \<open>None\<close> when control goes on.
\<close>

definition gate :: "options option \<Rightarrow> jsval \<Rightarrow> jsval option" where
  "gate opts a =
     (case opts of
        None \<Rightarrow> None
      | Some ops \<Rightarrow>
          (case options.condition ops of
             None \<Rightarrow> None
           | Some c \<Rightarrow>
               (case c a of
                  Inl e \<Rightarrow> Some e
                | Inr r \<Rightarrow> if r = Bool False then Some conditionError else None)))"

text \<open>
  The code after the \<^verbatim>\<open>try\<close>/\<^verbatim>\<open>catch\<close>: \<^verbatim>\<open>skipDispatch\<close>, the conditional dispatch,
  and \<^verbatim>\<open>return finalAction\<close>, which resolves \<^verbatim>\<open>promise\<close>.
\<close>

definition skipDispatch :: "asyncThunk \<Rightarrow> action \<Rightarrow> bool" where
  "skipDispatch t fa =
     (case options t of
        None \<Rightarrow> False
      | Some ops \<Rightarrow>
          \<not> (case dispatchConditionRejection ops of None \<Rightarrow> False | Some b \<Rightarrow> b)
          \<and> match (typePrefix t @ ''/rejected'') fa
          \<and> (case meta fa of
                None \<Rightarrow> False
              | Some m \<Rightarrow> (case meta.condition m of None \<Rightarrow> False | Some b \<Rightarrow> b)))"

definition settle :: "asyncThunk \<Rightarrow> action \<Rightarrow> state \<Rightarrow> state" where
  "settle t fa s =
     s\<lparr>dispatched := (if skipDispatch t fa then dispatched s else dispatched s @ [fa]),
       finalAction := Some fa\<rparr>"

text \<open>
  The synchronous part of the invocation: everything the thunk does before it returns the
  handle. The body of the \<^verbatim>\<open>async\<close> function runs up to its first \<^verbatim>\<open>await\<close>; when the
  gate or the payload creator throws, there is no \<^verbatim>\<open>await\<close> and the body runs to its end.
\<close>

definition start :: "host \<Rightarrow> asyncThunk \<Rightarrow> jsval \<Rightarrow> state" where
  "start h t a =
     (let rid = requestId_of h t
      in case gate (options t) a of
           Some err \<Rightarrow> settle t (rejected (typePrefix t) (options t) err rid a) initial
         | None \<Rightarrow>
             (let s1 = initial\<lparr>started := True, dispatched := [pending (typePrefix t) rid a]\<rparr>
              in case payloadCreator t a of
                   Throws err \<Rightarrow> settle t (rejected (typePrefix t) (options t) err rid a) s1
                 | Settles r \<Rightarrow> s1))"

text \<open>
  The value the \<^verbatim>\<open>abort\<close> listener rejects \<^verbatim>\<open>abortedPromise\<close> with:
  \<^verbatim>\<open>{ name: 'AbortError', message: abortReason || 'Aborted' }\<close>.
\<close>

definition abortError :: "string option \<Rightarrow> jsval" where
  "abortError reason =
     Obj [(''name'', Str ''AbortError''),
          (''message'', Str (case reason of
                               None \<Rightarrow> ''Aborted''
                             | Some r \<Rightarrow> if r \<noteq> [] then r else ''Aborted''))]"

text \<open>
  What happens after the handle is returned. \<^verbatim>\<open>Promise.race\<close> takes the first of its two
  promises to settle; the continuation of the \<^verbatim>\<open>await\<close> reads nothing but that result, so
  it is run at the moment the race is decided. The race is pending exactly when the
  invocation has started and \<^verbatim>\<open>promise\<close> is unresolved.

  \<open>Abort reason\<close> is a call of the handle's \<^verbatim>\<open>abort(reason)\<close>. On a host with
  \<^verbatim>\<open>AbortController\<close> the first \<^verbatim>\<open>abortController.abort()\<close> sets the signal's flag and fires
  the listener; later ones fire nothing. The fallback class leaves the signal alone (it
  only prints a notice).

  \<open>Settle\<close> is the moment the payload creator's promise settles and its \<^verbatim>\<open>then\<close> callback
  has run.
\<close>

datatype stimulus = Abort "string option" | Settle

definition abort :: "host \<Rightarrow> asyncThunk \<Rightarrow> jsval \<Rightarrow> string option \<Rightarrow> state \<Rightarrow> state" where
  "abort h t a reason s =
     (if started s then
        (let s1 = s\<lparr>abortReason := reason\<rparr>
         in if hasAbortController h \<and> \<not> signal_aborted s1 then
              (let s2 = s1\<lparr>signal_aborted := True\<rparr>
               in if finalAction s2 = None
                  then settle t (rejected (typePrefix t) (options t)
                                   (abortError (abortReason s2)) (requestId_of h t) a) s2
                  else s2)
            else s1)
      else s)"

definition computationSettles :: "host \<Rightarrow> asyncThunk \<Rightarrow> jsval \<Rightarrow> state \<Rightarrow> state" where
  "computationSettles h t a s =
     (if started s \<and> finalAction s = None then
        (case payloadCreator t a of
           Throws err \<Rightarrow> s
         | Settles (Inr result) \<Rightarrow>
             settle t (if instanceof_RejectWithValue result
                       then rejected (typePrefix t) (options t) result (requestId_of h t) a
                       else fulfilled (typePrefix t) result (requestId_of h t) a) s
         | Settles (Inl err) \<Rightarrow>
             settle t (rejected (typePrefix t) (options t) err (requestId_of h t) a) s)
      else s)"

fun step :: "host \<Rightarrow> asyncThunk \<Rightarrow> jsval \<Rightarrow> stimulus \<Rightarrow> state \<Rightarrow> state" where
  "step h t a (Abort reason) s = abort h t a reason s"
| "step h t a Settle s = computationSettles h t a s"

fun run :: "host \<Rightarrow> asyncThunk \<Rightarrow> jsval \<Rightarrow> stimulus list \<Rightarrow> state \<Rightarrow> state" where
  "run h t a [] s = s"
| "run h t a (x # xs) s = run h t a xs (step h t a x s)"

text \<open>The invocation \<^verbatim>\<open>actionCreator(arg)(dispatch, getState, extra)\<close> under a schedule.\<close>

definition invoke :: "host \<Rightarrow> asyncThunk \<Rightarrow> jsval \<Rightarrow> stimulus list \<Rightarrow> state" where
  "invoke h t a sched = run h t a sched (start h t a)"

text \<open>
  The handle's \<^verbatim>\<open>unwrap()\<close>, \<^verbatim>\<open>promise.then(unwrapResult)\<close>: \<open>None\<close> while \<^verbatim>\<open>promise\<close> is
  pending.
\<close>

definition unwrap :: "state \<Rightarrow> (jsval + jsval) option" where
  "unwrap s = map_option unwrapResult (finalAction s)"

text \<open>
  Whether the payload creator's promise settles while the race is pending: the schedule
  has a \<open>Settle\<close>, and every \<open>Abort\<close> before the first one falls on a host whose
  controller is the fallback class.
\<close>

fun settlesFirst :: "host \<Rightarrow> stimulus list \<Rightarrow> bool" where
  "settlesFirst h [] = False"
| "settlesFirst h (Settle # sched) = True"
| "settlesFirst h (Abort reason # sched) = (\<not> hasAbortController h \<and> settlesFirst h sched)"

section \<open>Example invocations\<close>

text \<open>Concrete hosts, options and thunks, on which the theorems below are evaluated.\<close>

definition exampleHost :: host where
  "exampleHost = \<lparr>hasAbortController = True, nanoid = ''r1''\<rparr>"

definition fallbackHost :: host where
  "fallbackHost = \<lparr>hasAbortController = False, nanoid = ''r1''\<rparr>"

definition skippingOptions :: options where
  "skippingOptions =
     \<lparr>condition = Some (\<lambda>a. Inr (Bool False)), dispatchConditionRejection = None,
      serializeError = None, idGenerator = None\<rparr>"

definition skippingThunk :: asyncThunk where
  "skippingThunk =
     \<lparr>typePrefix = ''t'', payloadCreator = (\<lambda>a. Settles (Inr (Str ''ok''))),
      options = Some skippingOptions\<rparr>"



definition markRejectionThunk :: asyncThunk where
  "markRejectionThunk =
     \<lparr>typePrefix = ''t'', payloadCreator = (\<lambda>a. Settles (Inr (RejectWithValue (Num 7)))),
      options = None\<rparr>"


definition pendingThunk :: asyncThunk where
  "pendingThunk =
     \<lparr>typePrefix = ''t'', payloadCreator = (\<lambda>a. Settles (Inr (Str ''ok''))), options = None\<rparr>"

definition blankOptions :: options where
  "blankOptions =
     \<lparr>condition = None, dispatchConditionRejection = None,
      serializeError = Some (\<lambda>e. Str []), idGenerator = None\<rparr>"

definition blankThunk :: asyncThunk where
  "blankThunk =
     \<lparr>typePrefix = ''t'', payloadCreator = (\<lambda>a. Throws (Str ''boom'')),
      options = Some blankOptions\<rparr>"



section \<open>Properties of the default error serializer\<close>

lemma map_of_setprop: "map_of (setprop fs p v) = (map_of fs)(p \<mapsto> v)"
  by (induction fs p v rule: setprop.induct) auto

lemma keys_setprop: "fst ` set (setprop fs p v) = insert p (fst ` set fs)"
  by (induction fs p v rule: setprop.induct) auto

lemma distinct_setprop: "distinct (map fst fs) \<Longrightarrow> distinct (map fst (setprop fs p v))"
proof (induction fs p v rule: setprop.induct)
  case (1 p v)
  then show ?case by simp
next
  case (2 q w fs p v)
  then show ?case using keys_setprop [of fs p v] by auto
qed

lemma distinct_copyProperties:
  "distinct (map fst acc) \<Longrightarrow> distinct (map fst (copyProperties val ps acc))"
  by (induction ps arbitrary: acc) (simp_all add: distinct_setprop)

lemma map_of_copyProperties:
  "map_of (copyProperties val ps acc) k =
     (if k \<in> set ps \<and> typeof (getprop val k) = ''string'' then Some (getprop val k)
      else map_of acc k)"
  by (induction ps arbitrary: acc) (auto simp: map_of_setprop)








section \<open>The run of an invocation\<close>

lemma settle_fields:
  "finalAction (settle t fa s) = Some fa"
  "started (settle t fa s) = started s"
  "signal_aborted (settle t fa s) = signal_aborted s"
  "abortReason (settle t fa s) = abortReason s"
  "dispatched (settle t fa s) = (if skipDispatch t fa then dispatched s else dispatched s @ [fa])"
  by (simp_all add: settle_def)

lemma step_settled:
  assumes "finalAction s = Some fa"
  shows "finalAction (step h t a x s) = Some fa"
    and "dispatched (step h t a x s) = dispatched s"
    and "started (step h t a x s) = started s"
  using assms by (cases x; simp add: abort_def computationSettles_def Let_def)+

lemma run_settled:
  assumes "finalAction s = Some fa"
  shows "finalAction (run h t a sched s) = Some fa
       \<and> dispatched (run h t a sched s) = dispatched s
       \<and> started (run h t a sched s) = started s"
  using assms
proof (induction sched arbitrary: s)
  case Nil
  then show ?case by simp
next
  case (Cons x xs)
  from Cons.prems have "finalAction (step h t a x s) = Some fa"
    by (rule step_settled)
  from Cons.IH [OF this] step_settled [OF Cons.prems, of h t a x]
  show ?case by simp
qed

lemma step_not_started: "\<not> started s \<Longrightarrow> step h t a x s = s"
  by (cases x) (simp_all add: abort_def computationSettles_def)

lemma run_not_started: "\<not> started s \<Longrightarrow> run h t a sched s = s"
  by (induction sched) (simp_all add: step_not_started)


lemma start_gated:
  assumes "gate (options t) a = Some err"
  shows "start h t a =
     settle t (rejected (typePrefix t) (options t) err (requestId_of h t) a)
       \<lparr>started = False, abortReason = None, signal_aborted = False,
        dispatched = [], finalAction = None\<rparr>"
  using assms by (simp add: start_def initial_def Let_def)


lemma start_pending:
  assumes "gate (options t) a = None" and "payloadCreator t a = Settles r"
  shows "start h t a =
       \<lparr>started = True, abortReason = None, signal_aborted = False,
        dispatched = [pending (typePrefix t) (requestId_of h t) a], finalAction = None\<rparr>"
  using assms by (simp add: start_def initial_def Let_def)

lemma started_start: "started (start h t a) \<longleftrightarrow> gate (options t) a = None"
  by (cases "gate (options t) a"; cases "payloadCreator t a")
     (simp_all add: start_def initial_def settle_fields Let_def)

lemma computationSettles_pending:
  assumes "started s" and "finalAction s = None" and "payloadCreator t a = Settles r"
  shows "computationSettles h t a s =
     settle t (case r of
                 Inl err \<Rightarrow> rejected (typePrefix t) (options t) err (requestId_of h t) a
               | Inr result \<Rightarrow>
                   if instanceof_RejectWithValue result
                   then rejected (typePrefix t) (options t) result (requestId_of h t) a
                   else fulfilled (typePrefix t) result (requestId_of h t) a) s"
  using assms by (cases r) (simp_all add: computationSettles_def)

lemma run_settlesFirst:
  assumes "settlesFirst h sched" and "started s" and "finalAction s = None"
    and "payloadCreator t a = Settles r"
  shows "finalAction (run h t a sched s) = finalAction (computationSettles h t a s)
       \<and> dispatched (run h t a sched s) = dispatched (computationSettles h t a s)"
  using assms
proof (induction sched arbitrary: s)
  case Nil
  then show ?case by simp
next
  case (Cons x xs)
  show ?case
  proof (cases x)
    case Settle
    have "finalAction (computationSettles h t a s) \<noteq> None"
      using computationSettles_pending [OF Cons.prems(2,3,4), of h] by (simp add: settle_fields)
    then obtain fa where "finalAction (computationSettles h t a s) = Some fa"
      by blast
    from run_settled [OF this, of h t a xs] this Settle show ?thesis
      by simp
  next
    case (Abort reason)
    with Cons.prems(1) have fallback: "\<not> hasAbortController h" and rest: "settlesFirst h xs"
      by simp_all
    let ?s1 = "s\<lparr>abortReason := reason\<rparr>"
    have step: "step h t a x s = ?s1"
      using Abort fallback Cons.prems(2) by (simp add: abort_def)
    have s1: "started ?s1" "finalAction ?s1 = None"
      using Cons.prems(2,3) by simp_all
    have same: "finalAction (computationSettles h t a ?s1) = finalAction (computationSettles h t a s)"
      "dispatched (computationSettles h t a ?s1) = dispatched (computationSettles h t a s)"
      using computationSettles_pending [OF s1 Cons.prems(4), of h]
        computationSettles_pending [OF Cons.prems(2,3,4), of h]
      by (simp_all add: settle_fields)
    from Cons.IH [OF rest s1 Cons.prems(4)] step same show ?thesis
      by simp
  qed
qed

lemma invoke_settles:
  assumes "gate (options t) a = None" and "payloadCreator t a = Settles r"
    and "settlesFirst h sched"
  shows "invoke h t a sched =
           run h t a sched (start h t a)"
    and "finalAction (invoke h t a sched) =
      Some (case r of
              Inl err \<Rightarrow> rejected (typePrefix t) (options t) err (requestId_of h t) a
            | Inr result \<Rightarrow>
                if instanceof_RejectWithValue result
                then rejected (typePrefix t) (options t) result (requestId_of h t) a
                else fulfilled (typePrefix t) result (requestId_of h t) a)"
proof -
  show "invoke h t a sched = run h t a sched (start h t a)"
    by (simp add: invoke_def)
  let ?s1 = "\<lparr>started = True, abortReason = None, signal_aborted = False,
        dispatched = [pending (typePrefix t) (requestId_of h t) a], finalAction = None\<rparr>"
  have s1: "started ?s1" "finalAction ?s1 = None" by simp_all
  from run_settlesFirst [OF assms(3) s1 assms(2)]
    computationSettles_pending [OF s1 assms(2), of h]
  show "finalAction (invoke h t a sched) =
      Some (case r of
              Inl err \<Rightarrow> rejected (typePrefix t) (options t) err (requestId_of h t) a
            | Inr result \<Rightarrow>
                if instanceof_RejectWithValue result
                then rejected (typePrefix t) (options t) result (requestId_of h t) a
                else fulfilled (typePrefix t) result (requestId_of h t) a)"
    by (simp add: invoke_def start_pending [OF assms(1,2)] settle_fields)
qed


lemma invoke_gated:
  assumes "gate (options t) a = Some err"
  shows "invoke h t a sched =
     settle t (rejected (typePrefix t) (options t) err (requestId_of h t) a)
       \<lparr>started = False, abortReason = None, signal_aborted = False,
        dispatched = [], finalAction = None\<rparr>"
proof -
  have "\<not> started (start h t a)"
    using assms by (simp add: started_start)
  then show ?thesis
    by (simp add: invoke_def run_not_started start_gated [OF assms])
qed

section \<open>Terminal events and the sink\<close>

lemma rejected_fields:
  "type (rejected tp opts err rid a) = tp @ ''/rejected''"
  "payload (rejected tp opts err rid a) =
     (if instanceof_RejectWithValue err then getprop err ''payload'' else Undefined)"
  "meta (rejected tp opts err rid a) =
     Some \<lparr>arg = a, requestId = rid, requestStatus = ''rejected'',
           rejectedWithValue = Some (instanceof_RejectWithValue err),
           aborted = Some (truthy err \<and> getprop err ''name'' = Str ''AbortError''),
           meta.condition = Some (truthy err \<and> getprop err ''name'' = Str ''ConditionError'')\<rparr>"
  "error (rejected tp opts err rid a) =
     Some (serializer opts (if truthy err then err else Str ''Rejected''))"
  by (simp_all add: rejected_def createAction_def)

lemma fulfilled_fields:
  "type (fulfilled tp v rid a) = tp @ ''/fulfilled''"
  "payload (fulfilled tp v rid a) = v"
  "meta (fulfilled tp v rid a) =
     Some \<lparr>arg = a, requestId = rid, requestStatus = ''fulfilled'',
           rejectedWithValue = None, aborted = None, meta.condition = None\<rparr>"
  "error (fulfilled tp v rid a) = None"
  by (simp_all add: fulfilled_def createAction_def)

lemma pending_fields:
  "type (pending tp rid a) = tp @ ''/pending''"
  by (simp_all add: pending_def createAction_def)

lemma step_final:
  assumes "finalAction (step h t a x s) = Some fa"
  shows "finalAction s = Some fa
       \<or> (\<exists>err. fa = rejected (typePrefix t) (options t) err (requestId_of h t) a)
       \<or> (\<exists>v. fa = fulfilled (typePrefix t) v (requestId_of h t) a)"
proof (cases x)
  case (Abort reason)
  with assms show ?thesis
    by (auto simp: abort_def Let_def settle_fields split: if_splits)
next
  case Settle
  with assms show ?thesis
    by (auto simp: computationSettles_def settle_fields split: if_splits returned.splits sum.splits)
qed

lemma run_final:
  assumes "finalAction (run h t a sched s) = Some fa"
  shows "finalAction s = Some fa
       \<or> (\<exists>err. fa = rejected (typePrefix t) (options t) err (requestId_of h t) a)
       \<or> (\<exists>v. fa = fulfilled (typePrefix t) v (requestId_of h t) a)"
  using assms
proof (induction sched arbitrary: s)
  case Nil
  then show ?case by simp
next
  case (Cons x xs)
  from Cons.prems have "finalAction (run h t a xs (step h t a x s)) = Some fa"
    by simp
  from Cons.IH [OF this] step_final [of h t a x s fa] show ?case
    by blast
qed

lemma start_final:
  assumes "finalAction (start h t a) = Some fa"
  shows "\<exists>err. fa = rejected (typePrefix t) (options t) err (requestId_of h t) a"
  using assms
  by (cases "gate (options t) a"; cases "payloadCreator t a")
     (auto simp: start_def initial_def Let_def settle_fields)

lemma final_cases:
  assumes "finalAction (invoke h t a sched) = Some fa"
  shows "(\<exists>err. fa = rejected (typePrefix t) (options t) err (requestId_of h t) a)
       \<or> (\<exists>v. fa = fulfilled (typePrefix t) v (requestId_of h t) a)"
  using run_final [of h t a sched "start h t a" fa] start_final [of h t a fa] assms
  by (auto simp: invoke_def)





lemma step_started: "started (step h t a x s) = started s"
  by (cases x) (simp_all add: abort_def computationSettles_def Let_def settle_fields
       split: returned.splits sum.splits)

lemma run_started: "started (run h t a sched s) = started s"
  by (induction sched arbitrary: s) (simp_all add: step_started)

lemma started_invoke: "started (invoke h t a sched) \<longleftrightarrow> gate (options t) a = None"
  by (simp add: invoke_def run_started started_start)

section \<open>The gate\<close>

lemma serializer_default:
  "serializer None = miniSerializeError"
  "serializeError ops = None \<Longrightarrow> serializer (Some ops) = miniSerializeError"
  by (simp_all add: serializer_def)

lemma truthy_miniSerializeError: "truthy (miniSerializeError v)"
  by (simp add: miniSerializeError_def)

lemma miniSerializeError_conditionError: "miniSerializeError conditionError = conditionError"
  by (simp add: miniSerializeError_def conditionError_def commonProperties_def)

lemma miniSerializeError_abortError: "miniSerializeError (abortError reason) = abortError reason"
  by (simp add: miniSerializeError_def abortError_def commonProperties_def)

lemma rejected_conditionError:
  "rejected tp opts conditionError rid a =
     \<lparr>payload = Undefined,
      meta = Some \<lparr>arg = a, requestId = rid, requestStatus = ''rejected'',
                   rejectedWithValue = Some False, aborted = Some False,
                   meta.condition = Some True\<rparr>,
      error = Some (serializer opts conditionError),
      type = tp @ ''/rejected''\<rparr>"
  by (simp add: rejected_def createAction_def conditionError_def)

lemma rejected_abortError:
  "rejected tp opts (abortError reason) rid a =
     \<lparr>payload = Undefined,
      meta = Some \<lparr>arg = a, requestId = rid, requestStatus = ''rejected'',
                   rejectedWithValue = Some False, aborted = Some True,
                   meta.condition = Some False\<rparr>,
      error = Some (serializer opts (abortError reason)),
      type = tp @ ''/rejected''\<rparr>"
  by (simp add: rejected_def createAction_def abortError_def)

lemma gate_false:
  assumes "options t = Some ops" and "options.condition ops = Some c" and "c a = Inr (Bool False)"
  shows "gate (options t) a = Some conditionError"
  using assms by (simp add: gate_def)

lemma skipDispatch_conditionError:
  assumes "options t = Some ops"
  shows "skipDispatch t (rejected (typePrefix t) opts conditionError rid a)
           \<longleftrightarrow> dispatchConditionRejection ops \<noteq> Some True"
  using assms
  by (cases "dispatchConditionRejection ops")
     (simp_all add: skipDispatch_def match_def rejected_conditionError)

section \<open>Unwrapping\<close>

lemma unwrapResult_rejected:
  "unwrapResult (rejected tp opts err rid a) =
     (if instanceof_RejectWithValue err then Inl (getprop err ''payload'')
      else if truthy (serializer opts (if truthy err then err else Str ''Rejected''))
      then Inl (serializer opts (if truthy err then err else Str ''Rejected''))
      else Inr Undefined)"
  by (simp add: unwrapResult_def rejected_fields)

lemma unwrapResult_fulfilled: "unwrapResult (fulfilled tp v rid a) = Inr v"
  by (simp add: unwrapResult_def fulfilled_fields)

lemma unwrapResult_thrown:
  "unwrapResult (rejected tp opts (RejectWithValue v) rid a) = Inl v"
  "\<not> instanceof_RejectWithValue err \<Longrightarrow>
     truthy (serializer opts (if truthy err then err else Str ''Rejected'')) \<Longrightarrow>
     unwrapResult (rejected tp opts err rid a) =
       Inl (serializer opts (if truthy err then err else Str ''Rejected''))"
  "\<not> instanceof_RejectWithValue err \<Longrightarrow>
     (case opts of None \<Rightarrow> True | Some ops \<Rightarrow> serializeError ops = None) \<Longrightarrow>
     unwrapResult (rejected tp opts err rid a) =
       Inl (miniSerializeError (if truthy err then err else Str ''Rejected''))"
proof -
  show "unwrapResult (rejected tp opts (RejectWithValue v) rid a) = Inl v"
    by (simp add: unwrapResult_rejected)
  show "\<not> instanceof_RejectWithValue err \<Longrightarrow>
     truthy (serializer opts (if truthy err then err else Str ''Rejected'')) \<Longrightarrow>
     unwrapResult (rejected tp opts err rid a) =
       Inl (serializer opts (if truthy err then err else Str ''Rejected''))"
    by (simp add: unwrapResult_rejected)
  show "\<not> instanceof_RejectWithValue err \<Longrightarrow>
     (case opts of None \<Rightarrow> True | Some ops \<Rightarrow> serializeError ops = None) \<Longrightarrow>
     unwrapResult (rejected tp opts err rid a) =
       Inl (miniSerializeError (if truthy err then err else Str ''Rejected''))"
    by (cases opts) (simp_all add: unwrapResult_rejected serializer_default truthy_miniSerializeError)
qed

section \<open>Cancellation\<close>

lemma abort_pending:
  assumes "hasAbortController h" and "started s" and "finalAction s = None"
    and "\<not> signal_aborted s"
  shows "abort h t a reason s =
     settle t (rejected (typePrefix t) (options t) (abortError reason) (requestId_of h t) a)
       (s\<lparr>abortReason := reason, signal_aborted := True\<rparr>)"
  using assms by (simp add: abort_def)

lemma skipDispatch_abortError:
  "\<not> skipDispatch t (rejected tp opts (abortError reason) rid a)"
  by (simp add: skipDispatch_def rejected_abortError split: option.splits)

lemma invoke_abort:
  assumes "hasAbortController h" and "gate (options t) a = None"
    and "payloadCreator t a = Settles r"
  shows "finalAction (invoke h t a (Abort reason # sched)) =
      Some (rejected (typePrefix t) (options t) (abortError reason) (requestId_of h t) a)"
    and "dispatched (invoke h t a (Abort reason # sched)) =
      [pending (typePrefix t) (requestId_of h t) a,
       rejected (typePrefix t) (options t) (abortError reason) (requestId_of h t) a]"
proof -
  let ?s1 = "\<lparr>started = True, abortReason = None, signal_aborted = False,
        dispatched = [pending (typePrefix t) (requestId_of h t) a], finalAction = None\<rparr>"
  let ?fa = "rejected (typePrefix t) (options t) (abortError reason) (requestId_of h t) a"
  have s1: "started ?s1" "finalAction ?s1 = None" "\<not> signal_aborted ?s1"
    by simp_all
  have fin: "finalAction (abort h t a reason ?s1) = Some ?fa"
    by (simp add: abort_pending [OF assms(1) s1] settle_fields)
  have sink: "dispatched (abort h t a reason ?s1) =
      [pending (typePrefix t) (requestId_of h t) a, ?fa]"
    by (simp add: abort_pending [OF assms(1) s1] settle_fields skipDispatch_abortError)
  from run_settled [OF fin, of h t a sched] sink
  show "finalAction (invoke h t a (Abort reason # sched)) = Some ?fa"
    and "dispatched (invoke h t a (Abort reason # sched)) =
      [pending (typePrefix t) (requestId_of h t) a, ?fa]"
    by (simp_all add: invoke_def start_pending [OF assms(2,3)])
qed




section \<open>The claims\<close>

subsection \<open>C1\<close>

text \<open>
  C1, as the source has it. When the gate \<^verbatim>\<open>options.condition\<close> returns exactly \<^verbatim>\<open>false\<close>, the
  promise resolves with the rejected action made from the \<^verbatim>\<open>ConditionError\<close> literal,
  whatever the schedule, and this action is handed to \<^verbatim>\<open>dispatch\<close> if and only if the
  option \<^verbatim>\<open>dispatchConditionRejection\<close> is \<^verbatim>\<open>true\<close>. When the option is absent or \<^verbatim>\<open>false\<close>
  nothing at all reaches the sink: by default the skip event is not dispatched.
\<close>

theorem skip_dispatch:
  assumes "options t = Some ops" and "options.condition ops = Some c"
    and "c a = Inr (Bool False)"
  shows "finalAction (invoke h t a sched) =
           Some (rejected (typePrefix t) (options t) conditionError (requestId_of h t) a)
       \<and> dispatched (invoke h t a sched) =
           (if dispatchConditionRejection ops = Some True
            then [rejected (typePrefix t) (options t) conditionError (requestId_of h t) a]
            else [])"
  using invoke_gated [OF gate_false [OF assms], where h = h and sched = sched]
    skipDispatch_conditionError [OF assms(1), where opts = "options t"
      and rid = "requestId_of h t" and a = a]
  by (simp add: settle_fields)

theorem skip_dispatch_witness:
  "options skippingThunk = Some skippingOptions
   \<and> options.condition skippingOptions = Some (\<lambda>a. Inr (Bool False))
   \<and> dispatched (invoke exampleHost skippingThunk Null [Abort None, Settle]) = []
   \<and> dispatched
       (invoke exampleHost
          (skippingThunk\<lparr>options := Some (skippingOptions\<lparr>dispatchConditionRejection := Some True\<rparr>)\<rparr>)
          Null [Abort None, Settle])
       = [rejected ''t'' (Some (skippingOptions\<lparr>dispatchConditionRejection := Some True\<rparr>))
            conditionError ''r1'' Null]"
proof -
  have a: "options skippingThunk = Some skippingOptions"
    by (simp add: skippingThunk_def)
  have b: "options.condition skippingOptions = Some (\<lambda>a. Inr (Bool False))"
    by (simp add: skippingOptions_def)
  let ?ops = "skippingOptions\<lparr>dispatchConditionRejection := Some True\<rparr>"
  let ?t = "skippingThunk\<lparr>options := Some ?ops\<rparr>"
  have a': "options ?t = Some ?ops"
    by simp
  have b': "options.condition ?ops = Some (\<lambda>a. Inr (Bool False))"
    by (simp add: skippingOptions_def)
  have c: "(\<lambda>a. Inr (Bool False)) Null = (Inr (Bool False) :: jsval + jsval)"
    by simp
  from skip_dispatch [OF a b c, where h = exampleHost and sched = "[Abort None, Settle]"]
    skip_dispatch [OF a' b' c, where h = exampleHost and sched = "[Abort None, Settle]"]
  show ?thesis
    by (simp add: a b skippingThunk_def skippingOptions_def requestId_of_def exampleHost_def)
qed

text \<open>
  C1 as stated fails on its default: with a gate that returns \<^verbatim>\<open>false\<close> and the option
  absent, the promise resolves with the condition-skip event and the sink receives
  nothing.
\<close>

theorem skip_dispatch_default_counterexample:
  "options skippingThunk = Some skippingOptions
   \<and> dispatchConditionRejection skippingOptions = None
   \<and> gate (options skippingThunk) Null = Some conditionError
   \<and> finalAction (invoke exampleHost skippingThunk Null []) =
       Some \<lparr>payload = Undefined,
             meta = Some \<lparr>arg = Null, requestId = ''r1'', requestStatus = ''rejected'',
                          rejectedWithValue = Some False, aborted = Some False,
                          meta.condition = Some True\<rparr>,
             error = Some conditionError,
             type = ''t/rejected''\<rparr>
   \<and> dispatched (invoke exampleHost skippingThunk Null []) = []"
  by (simp add: invoke_def start_def initial_def gate_def skippingThunk_def skippingOptions_def
      exampleHost_def requestId_of_def settle_def skipDispatch_def match_def
      rejected_conditionError serializer_def miniSerializeError_conditionError)

subsection \<open>C2\<close>




subsection \<open>C3\<close>

text \<open>
  C3, as the source has it. When the payload creator's promise settles with a
  \<^verbatim>\<open>RejectWithValue\<close> wrapping \<open>v\<close> before any effective abort, the promise resolves with a
  rejected action whose \<^verbatim>\<open>meta.rejectedWithValue\<close> is \<^verbatim>\<open>true\<close> and whose \<^verbatim>\<open>payload\<close> is
  \<open>v\<close>, and \<^verbatim>\<open>unwrap()\<close> throws \<open>v\<close>. Its \<^verbatim>\<open>error\<close> field is the serialization of the
  marker object itself, which the default serializer turns into
  \<^verbatim>\<open>{ name: 'RejectWithValue', message: 'Rejected' }\<close>.
\<close>

theorem rejection_marker_event:
  assumes "gate (options t) a = None"
    and "payloadCreator t a = Settles (Inr (RejectWithValue v))
         \<or> payloadCreator t a = Settles (Inl (RejectWithValue v))"
    and "settlesFirst h sched"
  shows "finalAction (invoke h t a sched) =
           Some \<lparr>payload = v,
                 meta = Some \<lparr>arg = a, requestId = requestId_of h t,
                              requestStatus = ''rejected'',
                              rejectedWithValue = Some True, aborted = Some False,
                              meta.condition = Some False\<rparr>,
                 error = Some (serializer (options t) (RejectWithValue v)),
                 type = typePrefix t @ ''/rejected''\<rparr>
       \<and> unwrap (invoke h t a sched) = Some (Inl v)
       \<and> miniSerializeError (RejectWithValue v) =
           Obj [(''name'', Str ''RejectWithValue''), (''message'', Str ''Rejected'')]"
proof -
  have fin: "finalAction (invoke h t a sched) =
      Some (rejected (typePrefix t) (options t) (RejectWithValue v) (requestId_of h t) a)"
    using assms(2)
  proof
    assume "payloadCreator t a = Settles (Inr (RejectWithValue v))"
    from invoke_settles(2) [OF assms(1) this assms(3)] show ?thesis by simp
  next
    assume "payloadCreator t a = Settles (Inl (RejectWithValue v))"
    from invoke_settles(2) [OF assms(1) this assms(3)] show ?thesis by simp
  qed
  have ev: "rejected (typePrefix t) (options t) (RejectWithValue v) (requestId_of h t) a =
           \<lparr>payload = v,
                 meta = Some \<lparr>arg = a, requestId = requestId_of h t,
                              requestStatus = ''rejected'',
                              rejectedWithValue = Some True, aborted = Some False,
                              meta.condition = Some False\<rparr>,
                 error = Some (serializer (options t) (RejectWithValue v)),
                 type = typePrefix t @ ''/rejected''\<rparr>"
    by (simp add: rejected_def createAction_def)
  have un: "unwrap (invoke h t a sched) = Some (Inl v)"
    by (simp add: unwrap_def fin unwrapResult_rejected)
  have "miniSerializeError (RejectWithValue v) =
           Obj [(''name'', Str ''RejectWithValue''), (''message'', Str ''Rejected'')]"
    by (simp add: miniSerializeError_def commonProperties_def)
  with fin ev un show ?thesis by simp
qed

theorem rejection_marker_event_witness:
  "gate (options markRejectionThunk) Null = None
   \<and> payloadCreator markRejectionThunk Null = Settles (Inr (RejectWithValue (Num 7)))
   \<and> settlesFirst fallbackHost [Abort None, Settle]
   \<and> unwrap (invoke fallbackHost markRejectionThunk Null [Abort None, Settle]) = Some (Inl (Num 7))"
proof -
  have a: "gate (options markRejectionThunk) Null = None"
    by (simp add: markRejectionThunk_def gate_def)
  have b: "payloadCreator markRejectionThunk Null = Settles (Inr (RejectWithValue (Num 7)))
         \<or> payloadCreator markRejectionThunk Null = Settles (Inl (RejectWithValue (Num 7)))"
    by (simp add: markRejectionThunk_def)
  have c: "settlesFirst fallbackHost [Abort None, Settle]"
    by (simp add: fallbackHost_def)
  from rejection_marker_event [OF a b c] a c show ?thesis
    by (simp add: markRejectionThunk_def)
qed

text \<open>
  C3 as stated fails on the error: for a promise fulfilled with \<^verbatim>\<open>rejectWithValue(7)\<close> the
  event's \<^verbatim>\<open>error\<close> field is not \<^verbatim>\<open>null\<close>, and it is not the serialization
  \<^verbatim>\<open>{ message: 'Rejected' }\<close> of the fallback literal of \<^verbatim>\<open>error || 'Rejected'\<close> either: the
  value passed to \<^verbatim>\<open>rejected\<close> is the marker, which is truthy, so the fallback is not
  taken.
\<close>

theorem rejection_marker_error_counterexample:
  "payloadCreator markRejectionThunk Null = Settles (Inr (RejectWithValue (Num 7)))
   \<and> finalAction (invoke exampleHost markRejectionThunk Null [Settle]) =
       Some \<lparr>payload = Num 7,
             meta = Some \<lparr>arg = Null, requestId = ''r1'', requestStatus = ''rejected'',
                          rejectedWithValue = Some True, aborted = Some False,
                          meta.condition = Some False\<rparr>,
             error = Some (Obj [(''name'', Str ''RejectWithValue''),
                                (''message'', Str ''Rejected'')]),
             type = ''t/rejected''\<rparr>
   \<and> serializer (options markRejectionThunk) (Str ''Rejected'') =
       Obj [(''message'', Str ''Rejected'')]
   \<and> Obj [(''name'', Str ''RejectWithValue''), (''message'', Str ''Rejected'')] \<noteq>
       serializer (options markRejectionThunk) (Str ''Rejected'')
   \<and> Obj [(''name'', Str ''RejectWithValue''), (''message'', Str ''Rejected'')] \<noteq> Null"
  by (simp add: invoke_def start_def initial_def gate_def markRejectionThunk_def computationSettles_def
      settle_def skipDispatch_def serializer_def miniSerializeError_def
      commonProperties_def rejected_def createAction_def exampleHost_def requestId_of_def
      pending_def)

subsection \<open>C4\<close>

text \<open>
  C4, as the source has it. When the gate returns exactly \<^verbatim>\<open>false\<close>, the invocation is never
  marked started, no pending action reaches the sink, and the promise resolves, whatever
  the schedule, with a rejected action whose \<^verbatim>\<open>meta\<close> has \<^verbatim>\<open>condition = true\<close>,
  \<^verbatim>\<open>aborted = false\<close>, \<^verbatim>\<open>rejectedWithValue = false\<close>, whose \<^verbatim>\<open>payload\<close> is \<^verbatim>\<open>undefined\<close>
  and whose \<^verbatim>\<open>error\<close> is the serialization of the \<^verbatim>\<open>ConditionError\<close> literal (the literal
  itself under the default serializer).
\<close>

theorem condition_skip_event:
  assumes "options t = Some ops" and "options.condition ops = Some c"
    and "c a = Inr (Bool False)"
  shows "finalAction (invoke h t a sched) =
           Some \<lparr>payload = Undefined,
                 meta = Some \<lparr>arg = a, requestId = requestId_of h t,
                              requestStatus = ''rejected'',
                              rejectedWithValue = Some False, aborted = Some False,
                              meta.condition = Some True\<rparr>,
                 error = Some (serializer (options t) conditionError),
                 type = typePrefix t @ ''/rejected''\<rparr>
       \<and> \<not> started (invoke h t a sched)
       \<and> pending (typePrefix t) (requestId_of h t) a \<notin> set (dispatched (invoke h t a sched))
       \<and> (serializeError ops = None \<longrightarrow> serializer (options t) conditionError = conditionError)"
proof -
  have g: "gate (options t) a = Some conditionError"
    using assms by (rule gate_false)
  have "pending (typePrefix t) (requestId_of h t) a
      \<noteq> rejected (typePrefix t) (options t) conditionError (requestId_of h t) a"
    using pending_fields [of "typePrefix t" "requestId_of h t" a]
      rejected_fields(1) [of "typePrefix t" "options t" conditionError "requestId_of h t" a]
    by auto
  then show ?thesis
    using invoke_gated [OF g, where h = h and sched = sched] assms(1)
    by (simp add: settle_fields rejected_conditionError [symmetric] serializer_default
        miniSerializeError_conditionError)
qed

theorem condition_skip_event_witness:
  "options skippingThunk = Some skippingOptions
   \<and> options.condition skippingOptions = Some (\<lambda>a. Inr (Bool False))
   \<and> finalAction (invoke exampleHost skippingThunk (Num 1) [Abort (Some ''stop'')]) =
       Some \<lparr>payload = Undefined,
             meta = Some \<lparr>arg = Num 1, requestId = ''r1'', requestStatus = ''rejected'',
                          rejectedWithValue = Some False, aborted = Some False,
                          meta.condition = Some True\<rparr>,
             error = Some conditionError,
             type = ''t/rejected''\<rparr>"
proof -
  have a: "options skippingThunk = Some skippingOptions"
    by (simp add: skippingThunk_def)
  have b: "options.condition skippingOptions = Some (\<lambda>a. Inr (Bool False))"
    by (simp add: skippingOptions_def)
  have c: "(\<lambda>a. Inr (Bool False)) (Num 1) = (Inr (Bool False) :: jsval + jsval)"
    by simp
  have d: "serializeError skippingOptions = None"
    by (simp add: skippingOptions_def)
  from condition_skip_event [OF a b c, where h = exampleHost and a = "Num 1"
      and sched = "[Abort (Some ''stop'')]"] d
  show ?thesis
    by (simp add: a b skippingThunk_def skippingOptions_def requestId_of_def exampleHost_def)
qed

text \<open>
  C4 as stated fails on the error: the condition-skip event's \<^verbatim>\<open>error\<close> field is the
  \<^verbatim>\<open>ConditionError\<close> object, neither \<^verbatim>\<open>null\<close> nor absent. (\<^verbatim>\<open>rejected\<close> is called with
  the thrown literal, not with \<^verbatim>\<open>null\<close>.)
\<close>

theorem condition_skip_error_counterexample:
  "gate (options skippingThunk) Null = Some conditionError
   \<and> map_option error (finalAction (invoke exampleHost skippingThunk Null [])) =
       Some (Some (Obj [(''name'', Str ''ConditionError''),
                        (''message'', Str ''Aborted due to condition callback returning false.'')]))
   \<and> map_option error (finalAction (invoke exampleHost skippingThunk Null [])) \<noteq> Some (Some Null)
   \<and> map_option error (finalAction (invoke exampleHost skippingThunk Null [])) \<noteq> Some None"
proof -
  have g: "gate (options skippingThunk) Null = Some conditionError"
    by (simp add: gate_def skippingThunk_def skippingOptions_def)
  have "serializer (options skippingThunk) conditionError = conditionError"
    by (simp add: skippingThunk_def skippingOptions_def serializer_def
        miniSerializeError_conditionError)
  then have "map_option error (finalAction (invoke exampleHost skippingThunk Null [])) =
      Some (Some conditionError)"
    by (simp add: invoke_gated [OF g] settle_fields rejected_fields conditionError_def)
  with g show ?thesis
    by (auto simp: conditionError_def)
qed

subsection \<open>C5\<close>




subsection \<open>C6\<close>

text \<open>
  C6, as the source has it. On a host with \<^verbatim>\<open>AbortController\<close>, when the gate lets the
  invocation start and the payload creator has returned, a call \<^verbatim>\<open>abort(reason)\<close> before
  the payload creator's promise settles makes the promise resolve with a rejected action
  whose \<^verbatim>\<open>meta\<close> has \<^verbatim>\<open>aborted = true\<close> and \<^verbatim>\<open>rejectedWithValue = false\<close> and whose
  \<^verbatim>\<open>error\<close> is the serialization of
  \<^verbatim>\<open>{ name: 'AbortError', message: reason || 'Aborted' }\<close>: under the default serializer
  that object itself, whose message is the reason, or \<^verbatim>\<open>'Aborted'\<close> for an absent or empty
  reason. Whatever follows (further aborts, the settlement), the sink holds the pending
  action and this one event.
\<close>

theorem abort_after_start:
  assumes "hasAbortController h" and "gate (options t) a = None"
    and "payloadCreator t a = Settles r"
  shows "finalAction (invoke h t a (Abort reason # sched)) =
           Some \<lparr>payload = Undefined,
                 meta = Some \<lparr>arg = a, requestId = requestId_of h t,
                              requestStatus = ''rejected'',
                              rejectedWithValue = Some False, aborted = Some True,
                              meta.condition = Some False\<rparr>,
                 error = Some (serializer (options t) (abortError reason)),
                 type = typePrefix t @ ''/rejected''\<rparr>
       \<and> dispatched (invoke h t a (Abort reason # sched)) =
           [pending (typePrefix t) (requestId_of h t) a,
            \<lparr>payload = Undefined,
             meta = Some \<lparr>arg = a, requestId = requestId_of h t,
                          requestStatus = ''rejected'',
                          rejectedWithValue = Some False, aborted = Some True,
                          meta.condition = Some False\<rparr>,
             error = Some (serializer (options t) (abortError reason)),
             type = typePrefix t @ ''/rejected''\<rparr>]
       \<and> ((case options t of None \<Rightarrow> True | Some ops \<Rightarrow> serializeError ops = None) \<longrightarrow>
            serializer (options t) (abortError reason) = abortError reason)
       \<and> getprop (abortError reason) ''message'' =
            Str (case reason of
                   None \<Rightarrow> ''Aborted''
                 | Some given \<Rightarrow> if given \<noteq> [] then given else ''Aborted'')"
proof -
  have "(case options t of None \<Rightarrow> True | Some ops \<Rightarrow> serializeError ops = None) \<longrightarrow>
            serializer (options t) (abortError reason) = abortError reason"
    by (cases "options t") (simp_all add: serializer_default miniSerializeError_abortError)
  moreover have "getprop (abortError reason) ''message'' =
            Str (case reason of
                   None \<Rightarrow> ''Aborted''
                 | Some given \<Rightarrow> if given \<noteq> [] then given else ''Aborted'')"
    by (simp add: abortError_def)
  ultimately show ?thesis
    using invoke_abort [OF assms, of reason sched]
    by (simp only: rejected_abortError simp_thms)
qed

theorem abort_after_start_witness:
  "hasAbortController exampleHost
   \<and> gate (options pendingThunk) Null = None
   \<and> payloadCreator pendingThunk Null = Settles (Inr (Str ''ok''))
   \<and> dispatched (invoke exampleHost pendingThunk Null [Abort (Some ''x''), Abort None, Settle]) =
       [pending ''t'' ''r1'' Null,
        \<lparr>payload = Undefined,
         meta = Some \<lparr>arg = Null, requestId = ''r1'', requestStatus = ''rejected'',
                      rejectedWithValue = Some False, aborted = Some True,
                      meta.condition = Some False\<rparr>,
         error = Some (Obj [(''name'', Str ''AbortError''), (''message'', Str ''x'')]),
         type = ''t/rejected''\<rparr>]"
proof -
  have a: "hasAbortController exampleHost"
    by (simp add: exampleHost_def)
  have b: "gate (options pendingThunk) Null = None"
    by (simp add: pendingThunk_def gate_def)
  have c: "payloadCreator pendingThunk Null = Settles (Inr (Str ''ok''))"
    by (simp add: pendingThunk_def)
  have d: "options pendingThunk = None" "typePrefix pendingThunk = ''t''"
    "requestId_of exampleHost pendingThunk = ''r1''"
    by (simp_all add: pendingThunk_def requestId_of_def exampleHost_def)
  from abort_after_start [OF a b c, of "Some ''x''" "[Abort None, Settle]"] a b c
  show ?thesis
    by (simp add: d abortError_def)
qed

text \<open>
  C6 as stated fails on a host without \<^verbatim>\<open>AbortController\<close>, where the fallback class's
  \<^verbatim>\<open>abort\<close> fires no listener: after \<^verbatim>\<open>abort('x')\<close> the promise is still pending, and the
  settlement then resolves it with the fulfilled action. It fails on the message under a
  configured serializer: with one that returns the empty string, the \<^verbatim>\<open>error\<close> of the
  aborted event is that string.
\<close>

theorem abort_after_start_counterexample:
  "gate (options pendingThunk) Null = None
   \<and> finalAction (invoke fallbackHost pendingThunk Null [Abort (Some ''x'')]) = None
   \<and> finalAction (invoke fallbackHost pendingThunk Null [Abort (Some ''x''), Settle]) =
       Some (fulfilled ''t'' (Str ''ok'') ''r1'' Null)
   \<and> map_option error
       (finalAction (invoke exampleHost (pendingThunk\<lparr>options := Some blankOptions\<rparr>) Null
          [Abort (Some ''x'')])) = Some (Some (Str []))"
  by (simp add: invoke_def start_def initial_def gate_def pendingThunk_def blankOptions_def
      fallbackHost_def exampleHost_def abort_def computationSettles_def settle_def
      requestId_of_def rejected_fields serializer_def Let_def)

subsection \<open>C7\<close>

text \<open>
  C7. While \<^verbatim>\<open>started\<close> is \<^verbatim>\<open>false\<close> a call of \<^verbatim>\<open>abort\<close> changes nothing, so the invocation
  goes on exactly as without the call. When the gate stops the invocation, \<^verbatim>\<open>started\<close> is
  never set, and a call of \<^verbatim>\<open>abort\<close> at any later time leaves the whole state, the terminal
  event and the sink included, as it is.
\<close>

theorem abort_before_started:
  "abort h t a reason initial = initial
   \<and> (\<not> started s \<longrightarrow> abort h t a reason s = s)
   \<and> (\<not> started s \<longrightarrow> run h t a (Abort reason # sched) s = run h t a sched s)
   \<and> (gate (options t) a \<noteq> None \<longrightarrow>
        \<not> started (invoke h t a sched)
        \<and> invoke h t a (Abort reason # sched) = invoke h t a sched)"
proof (intro conjI impI)
  show "abort h t a reason initial = initial"
    by (simp add: abort_def initial_def)
next
  assume "\<not> started s"
  then show "abort h t a reason s = s"
    by (simp add: abort_def)
  then show "run h t a (Abort reason # sched) s = run h t a sched s"
    by simp
next
  assume g: "gate (options t) a \<noteq> None"
  then show "\<not> started (invoke h t a sched)"
    by (simp add: started_invoke)
  from g obtain err where "gate (options t) a = Some err"
    by blast
  from invoke_gated [OF this, of h] show "invoke h t a (Abort reason # sched) = invoke h t a sched"
    by simp
qed

theorem abort_before_started_witness:
  "\<not> started (start exampleHost skippingThunk Null)
   \<and> abort exampleHost skippingThunk Null (Some ''x'') (start exampleHost skippingThunk Null) =
       start exampleHost skippingThunk Null
   \<and> gate (options skippingThunk) Null \<noteq> None
   \<and> invoke exampleHost skippingThunk Null [Abort (Some ''x''), Settle] =
       invoke exampleHost skippingThunk Null [Settle]"
proof -
  have g: "gate (options skippingThunk) Null \<noteq> None"
    by (simp add: gate_def skippingThunk_def skippingOptions_def)
  then have s: "\<not> started (start exampleHost skippingThunk Null)"
    by (simp add: started_start)
  from abort_before_started [where s = "start exampleHost skippingThunk Null"
      and h = exampleHost and t = skippingThunk and a = Null and reason = "Some ''x''"
      and sched = "[Settle]"] g s
  show ?thesis by simp
qed

subsection \<open>C8\<close>

text \<open>
  C8. \<^verbatim>\<open>unwrapResult\<close> is to return the payload of a fulfilled action and to throw on
  every rejected one: the wrapped value of a \<^verbatim>\<open>RejectWithValue\<close>, the serialized error
  otherwise. The source decides the second with \<^verbatim>\<open>if (action.error)\<close>, a test of
  truthiness. Here the payload creator throws and the configured serializer returns the
  empty string: the promise resolves with a rejected action, and \<^verbatim>\<open>unwrap()\<close> returns
  \<^verbatim>\<open>undefined\<close> instead of throwing. On every action with a truthy \<^verbatim>\<open>error\<close>, so on every
  rejected action under the default serializer, \<^verbatim>\<open>unwrapResult\<close> throws (lemma
  \<open>unwrapResult_thrown\<close>).
\<close>

theorem unwrapResult_falsy_error:
  "finalAction (invoke exampleHost blankThunk Null []) =
       Some \<lparr>payload = Undefined,
             meta = Some \<lparr>arg = Null, requestId = ''r1'', requestStatus = ''rejected'',
                          rejectedWithValue = Some False, aborted = Some False,
                          meta.condition = Some False\<rparr>,
             error = Some (Str []),
             type = ''t/rejected''\<rparr>
   \<and> unwrap (invoke exampleHost blankThunk Null []) = Some (Inr Undefined)"
  by (simp add: invoke_def start_def initial_def gate_def blankThunk_def blankOptions_def
      exampleHost_def settle_def requestId_of_def rejected_def createAction_def
      serializer_def Let_def unwrap_def unwrapResult_def)

subsection \<open>C9\<close>





subsection \<open>C10\<close>

text \<open>
  C10. A rejected action whose \<^verbatim>\<open>meta.rejectedWithValue\<close> is \<^verbatim>\<open>false\<close> has the payload
  \<^verbatim>\<open>undefined\<close>; a payload other than \<^verbatim>\<open>undefined\<close> occurs only on an action made from a
  \<^verbatim>\<open>RejectWithValue\<close>. In particular the actions made from the \<^verbatim>\<open>AbortError\<close> and
  \<^verbatim>\<open>ConditionError\<close> literals have the payload \<^verbatim>\<open>undefined\<close>, and so has every action
  with the flag \<^verbatim>\<open>false\<close> that the promise of an invocation resolves with.
\<close>

theorem rejected_payload_undefined:
  "(map_option rejectedWithValue (meta (rejected tp opts err rid a)) = Some (Some False) \<longrightarrow>
      payload (rejected tp opts err rid a) = Undefined)
   \<and> (payload (rejected tp opts err rid a) \<noteq> Undefined \<longrightarrow>
        instanceof_RejectWithValue err
        \<and> map_option rejectedWithValue (meta (rejected tp opts err rid a)) = Some (Some True))
   \<and> payload (rejected tp opts (abortError reason) rid a) = Undefined
   \<and> payload (rejected tp opts conditionError rid a) = Undefined
   \<and> (finalAction (invoke h t b sched) = Some fa
        \<and> map_option rejectedWithValue (meta fa) = Some (Some False) \<longrightarrow>
        payload fa = Undefined)"
proof (intro conjI impI)
  assume "map_option rejectedWithValue (meta (rejected tp opts err rid a)) = Some (Some False)"
  then show "payload (rejected tp opts err rid a) = Undefined"
    by (simp add: rejected_fields)
next
  assume "payload (rejected tp opts err rid a) \<noteq> Undefined"
  then show "instanceof_RejectWithValue err"
    and "map_option rejectedWithValue (meta (rejected tp opts err rid a)) = Some (Some True)"
    by (simp_all add: rejected_fields split: if_splits)
next
  show "payload (rejected tp opts (abortError reason) rid a) = Undefined"
    by (simp add: rejected_abortError)
  show "payload (rejected tp opts conditionError rid a) = Undefined"
    by (simp add: rejected_conditionError)
next
  assume "finalAction (invoke h t b sched) = Some fa
        \<and> map_option rejectedWithValue (meta fa) = Some (Some False)"
  with final_cases [of h t b sched fa] show "payload fa = Undefined"
    by (auto simp: rejected_fields fulfilled_fields)
qed

theorem rejected_payload_undefined_witness:
  "map_option rejectedWithValue (meta (rejected ''t'' None (Str ''boom'') ''r1'' Null)) =
     Some (Some False)
   \<and> payload (rejected ''t'' None (Str ''boom'') ''r1'' Null) = Undefined
   \<and> payload (rejected ''t'' None (RejectWithValue (Num 7)) ''r1'' Null) \<noteq> Undefined
   \<and> map_option rejectedWithValue
       (meta (rejected ''t'' None (RejectWithValue (Num 7)) ''r1'' Null)) = Some (Some True)"
proof -
  have a: "map_option rejectedWithValue (meta (rejected ''t'' None (Str ''boom'') ''r1'' Null)) =
     Some (Some False)"
    by (simp add: rejected_fields)
  have b: "payload (rejected ''t'' None (RejectWithValue (Num 7)) ''r1'' Null) \<noteq> Undefined"
    by (simp add: rejected_fields)
  from rejected_payload_undefined [of "''t''" None "Str ''boom''" "''r1''" Null]
    rejected_payload_undefined [of "''t''" None "RejectWithValue (Num 7)" "''r1''" Null]
    a b
  show ?thesis by simp
qed

end
